theory Spec2Isabelle
  imports Main
begin

section \<open>Values, errors and matchers (matchers.ts)\<close>

text \<open>
  JavaScript strings are modelled as HOL strings. Every character the code of this library
  inspects is ASCII, and the percent-encoders work on the UTF-8 bytes of a string, so a
  character beyond ASCII is read as its UTF-8 bytes. Offsets and truncation lengths then
  count bytes where JavaScript counts UTF-16 code units: the two agree on ASCII text.

  The values a parameter can hold at run time: \<open>JNull\<close> stands for both \<open>null\<close> and
  \<open>undefined\<close>, \<open>JPrim\<close> for every value whose \<open>typeof\<close> is not \<open>'object'\<close>, \<open>JArray\<close>
  for an array and \<open>JObject\<close> for any other object, given by its entries in the order of
  \<open>Object.keys\<close>.
\<close>

datatype 'a jsvalue =
  JNull
| JPrim 'a
| JArray "'a list"
| JObject "(string \<times> 'a) list"

text \<open>The values that are not objects, as the built-in matchers tell them apart with
  \<open>typeof\<close>. The type of numbers is left open: no arithmetic is ever done on them.
  \<open>JFunction\<close> is a function (\<open>typeof\<close> gives \<open>'function'\<close>), which no built-in matcher
  accepts.\<close>

datatype 'n primitive =
  JString string
| JNumber 'n
| JBoolean bool
| JFunction

datatype error_code =
  E_NOT_A_NUMBER
| E_NOT_A_CANONICAL_NUMBER_REPRESENTATION
| E_CANNOT_PARSE_BOOLEAN
| E_BAD_SUBSTITUTION_OPENING
| E_UNEXPECTED_SUBSTITUTION_CLOSING
| E_BAD_SUBSTITUTION_NAME
| E_BAD_SUBSTITUTION_TRUNCATE
| E_NO_SUBSTITUTION_MATCHER_FOUND
| E_EMPTY_SUBSTITUTION_NAME
| E_EXPECTED_SUBSTITUTION_CLOSING
| E_EXPECTED_A_RECORD
| E_EXPECTED_A_LIST
| E_EXPECTED_A_LITERAL_VALUE
| E_INVALID_VARIABLE_VALUE

text \<open>\<open>new YError(code, ...params)\<close>: the code and the debug parameters, which are
  strings, offsets or run-time values.\<close>

datatype 'a debug =
  DString string
| DNumber nat
| DValue "'a jsvalue"

datatype 'a yerror = YError error_code "'a debug list"

datatype matcher_type = type_value | type_list | type_record

record 'a ParameterMatcher =
  parse :: "string \<Rightarrow> 'a yerror + 'a"
  serialize :: "'a \<Rightarrow> string"
  isValid :: "'a \<Rightarrow> bool"
  type :: matcher_type

text \<open>The expansion calls \<open>serialize\<close> only on a value that \<open>isValid\<close> accepts; on
  the other values the \<open>serialize\<close> of the matchers below is the empty string.\<close>

subsection \<open>asString\<close>

definition asString :: "'n primitive ParameterMatcher" where
  "asString =
     \<lparr> parse = (\<lambda>s. Inr (JString s)),
       serialize = (\<lambda>v. case v of JString s \<Rightarrow> s | _ \<Rightarrow> []),
       isValid = (\<lambda>v. case v of JString _ \<Rightarrow> True | _ \<Rightarrow> False),
       type = type_value \<rparr>"

definition asStrings :: "'n primitive ParameterMatcher" where
  "asStrings = asString \<lparr> type := type_list \<rparr>"

definition asKeyedStrings :: "'n primitive ParameterMatcher" where
  "asKeyedStrings = asString \<lparr> type := type_record \<rparr>"

subsection \<open>asNumber\<close>

text \<open>
  \<open>parseFloat\<close> and \<open>Number.prototype.toString\<close> are built-ins working on floating-point
  numbers; they are parameters of the model. \<open>parseFloat s = None\<close> stands for \<open>NaN\<close>.
  \<open>String.prototype.toString\<close> returns the string it is called on.
\<close>

definition String_toString :: "string \<Rightarrow> string" where
  "String_toString s = s"

definition asNumber_parse ::
  "(string \<Rightarrow> 'n option) \<Rightarrow> string \<Rightarrow> 'n primitive yerror + 'n primitive" where
  "asNumber_parse parseFloat s =
     (case parseFloat s of
        None \<Rightarrow> Inl (YError E_NOT_A_NUMBER [DString s])
      | Some x \<Rightarrow>
          if String_toString s \<noteq> s
          then Inl (YError E_NOT_A_CANONICAL_NUMBER_REPRESENTATION
                      [DString s, DString (String_toString s)])
          else Inr (JNumber x))"

definition asNumber ::
  "(string \<Rightarrow> 'n option) \<Rightarrow> ('n \<Rightarrow> string) \<Rightarrow> 'n primitive ParameterMatcher" where
  "asNumber parseFloat Number_toString =
     \<lparr> parse = asNumber_parse parseFloat,
       serialize = (\<lambda>v. case v of JNumber n \<Rightarrow> Number_toString n | _ \<Rightarrow> []),
       isValid = (\<lambda>v. case v of JNumber _ \<Rightarrow> True | _ \<Rightarrow> False),
       type = type_value \<rparr>"

definition asNumbers ::
  "(string \<Rightarrow> 'n option) \<Rightarrow> ('n \<Rightarrow> string) \<Rightarrow> 'n primitive ParameterMatcher" where
  "asNumbers parseFloat Number_toString =
     asNumber parseFloat Number_toString \<lparr> type := type_list \<rparr>"

definition asKeyedNumbers ::
  "(string \<Rightarrow> 'n option) \<Rightarrow> ('n \<Rightarrow> string) \<Rightarrow> 'n primitive ParameterMatcher" where
  "asKeyedNumbers parseFloat Number_toString =
     asNumber parseFloat Number_toString \<lparr> type := type_record \<rparr>"

subsection \<open>asBoolean\<close>

definition asBoolean_parse :: "string \<Rightarrow> 'n primitive yerror + 'n primitive" where
  "asBoolean_parse s =
     (if s \<in> set [''true'', ''false'']
      then Inl (YError E_CANNOT_PARSE_BOOLEAN [DString s])
      else Inr (JBoolean (s = ''true'')))"

definition asBoolean :: "'n primitive ParameterMatcher" where
  "asBoolean =
     \<lparr> parse = asBoolean_parse,
       serialize = (\<lambda>v. case v of JBoolean b \<Rightarrow> (if b then ''true'' else ''false'') | _ \<Rightarrow> []),
       isValid = (\<lambda>v. case v of JBoolean _ \<Rightarrow> True | _ \<Rightarrow> False),
       type = type_value \<rparr>"

definition asBooleans :: "'n primitive ParameterMatcher" where
  "asBooleans = asBoolean \<lparr> type := type_list \<rparr>"

definition asKeyedBooleans :: "'n primitive ParameterMatcher" where
  "asKeyedBooleans = asBoolean \<lparr> type := type_record \<rparr>"

section \<open>The template parser (index.ts, templateParser)\<close>

datatype modifier = Plus | Dot | Slash | Hash | Semicolon | Question | Ampersand

text \<open>\<open>MODIFIERS.includes(c)\<close>, with the modifier the character stands for.\<close>

definition modifier_of_char :: "char \<Rightarrow> modifier option" where
  "modifier_of_char c =
     (if c = CHR ''+'' then Some Plus
      else if c = CHR ''.'' then Some Dot
      else if c = CHR ''/'' then Some Slash
      else if c = CHR ''#'' then Some Hash
      else if c = CHR '';'' then Some Semicolon
      else if c = CHR ''?'' then Some Question
      else if c = CHR ''&'' then Some Ampersand
      else None)"

text \<open>A variable of a substitution. \<open>explode\<close> is only ever set to \<open>true\<close>, so the
  property is present exactly when the field is \<open>True\<close>; \<open>truncate\<close> is present exactly
  when the field \<open>truncateLength\<close> is \<open>Some n\<close> (\<open>truncate\<close> is a name the record
  package keeps for itself).\<close>

record variable =
  name :: string
  explode :: bool
  truncateLength :: "int option"

datatype 'a TemplatePart =
  LiteralPart nat string
| SubstitutionPart nat "variable list" "'a ParameterMatcher list" "modifier option"

fun part_index :: "'a TemplatePart \<Rightarrow> nat" where
  "part_index (LiteralPart i v) = i"
| "part_index (SubstitutionPart i vs ms m) = i"

fun is_literal :: "'a TemplatePart \<Rightarrow> bool" where
  "is_literal (LiteralPart i v) = True"
| "is_literal (SubstitutionPart i vs ms m) = False"

fun literal_value :: "'a TemplatePart \<Rightarrow> string" where
  "literal_value (LiteralPart i v) = v"
| "literal_value (SubstitutionPart i vs ms m) = []"

fun part_variables :: "'a TemplatePart \<Rightarrow> variable list" where
  "part_variables (LiteralPart i v) = []"
| "part_variables (SubstitutionPart i vs ms m) = vs"

text \<open>\<open>currentPart\<close>: nothing, a literal being read, or a substitution being read. While
  a substitution is read its variables are objects with the single property \<open>name\<close>, so
  they are kept as the list of their names (never empty: it starts as \<open>[{ name: '' }]\<close>).\<close>

datatype currentPart =
  Undefined
| Literal nat string
| Substitution nat "string list" "modifier option"

definition is_digit :: "char \<Rightarrow> bool" where
  "is_digit c = (c \<in> set ''0123456789'')"

definition is_word_char :: "char \<Rightarrow> bool" where
  "is_word_char c =
     (c \<in> set ''ABCDEFGHIJKLMNOPQRSTUVWXYZabcdefghijklmnopqrstuvwxyz0123456789_'')"

text \<open>\<open>s.match(/^[0-9]+$/)\<close>\<close>

definition all_digits :: "string \<Rightarrow> bool" where
  "all_digits s = (s \<noteq> [] \<and> list_all is_digit s)"

text \<open>\<open>s.match(/^(?:[A-Za-z0-9_]|%[0-9]{2}){1,}$/)\<close>: the two alternatives start with
  different characters, so the match is decided from left to right.\<close>

fun name_items :: "string \<Rightarrow> bool" where
  "name_items [] = True"
| "name_items (c # cs) =
     (if is_word_char c then name_items cs
      else if c = CHR ''%'' then
        (case cs of
           d1 # d2 # rest \<Rightarrow> is_digit d1 \<and> is_digit d2 \<and> name_items rest
         | _ \<Rightarrow> False)
      else False)"

definition valid_name :: "string \<Rightarrow> bool" where
  "valid_name s = (s \<noteq> [] \<and> name_items s)"

text \<open>\<open>s.split(sep)\<close> for a separator of one character.\<close>

fun split_from :: "char \<Rightarrow> string \<Rightarrow> string \<Rightarrow> string list" where
  "split_from sep acc [] = [acc]"
| "split_from sep acc (c # cs) =
     (if c = sep then acc # split_from sep [] cs else split_from sep (acc @ [c]) cs)"

definition split :: "char \<Rightarrow> string \<Rightarrow> string list" where
  "split sep s = split_from sep [] s"

text \<open>\<open>parseInt(s, 10)\<close> on a string of decimal digits. The model keeps the exact integer;
  JavaScript rounds it to a double beyond \<open>2^53\<close>, which \<open>substring\<close> cannot tell apart
  since both exceed the length of any string.\<close>

definition digit_value :: "char \<Rightarrow> int" where
  "digit_value c = int (of_char c) - 48"

definition parseInt :: "string \<Rightarrow> int" where
  "parseInt s = foldl (\<lambda>n c. 10 * n + digit_value c) 0 s"

text \<open>The body of the loop \<open>for (const variable of currentPart.variables)\<close>, on a variable
  that so far is \<open>{ name }\<close>. It returns the code of the error it throws, or the variable
  as the loop leaves it.\<close>

definition strip_explode :: "variable \<Rightarrow> variable" where
  "strip_explode v =
     (if name v \<noteq> [] \<and> last (name v) = CHR ''*''
      then v \<lparr> explode := True, name := butlast (name v) \<rparr>
      else v)"

definition read_truncate :: "variable \<Rightarrow> error_code + variable" where
  "read_truncate v =
     (if CHR '':'' \<in> set (name v) then
        (if \<not> all_digits (split (CHR '':'') (name v) ! 1)
         then Inl E_BAD_SUBSTITUTION_TRUNCATE
         else Inr (v \<lparr> truncateLength := Some (parseInt (split (CHR '':'') (name v) ! 1)),
                        name := split (CHR '':'') (name v) ! 0 \<rparr>))
      else Inr v)"

definition check_variable ::
  "(string \<rightharpoonup> 'a ParameterMatcher) \<Rightarrow> variable \<Rightarrow> error_code + variable" where
  "check_variable matchers v =
     (if truncateLength v \<noteq> None \<and> explode v then Inl E_BAD_SUBSTITUTION_TRUNCATE
      else if \<not> valid_name (name v) then Inl E_BAD_SUBSTITUTION_NAME
      else if matchers (name v) = None then Inl E_NO_SUBSTITUTION_MATCHER_FOUND
      else Inr v)"

definition processVariable ::
  "(string \<rightharpoonup> 'a ParameterMatcher) \<Rightarrow> string \<Rightarrow> error_code + variable" where
  "processVariable matchers raw =
     (case read_truncate (strip_explode \<lparr> name = raw, explode = False, truncateLength = None \<rparr>) of
        Inl e \<Rightarrow> Inl e
      | Inr v \<Rightarrow> check_variable matchers v)"

text \<open>The whole loop: the variables in order, stopping at the first error.\<close>

fun processVariables ::
  "(string \<rightharpoonup> 'a ParameterMatcher) \<Rightarrow> string list \<Rightarrow> error_code + variable list" where
  "processVariables matchers [] = Inr []"
| "processVariables matchers (raw # raws) =
     (case processVariable matchers raw of
        Inl e \<Rightarrow> Inl e
      | Inr v \<Rightarrow>
          (case processVariables matchers raws of
             Inl e \<Rightarrow> Inl e
           | Inr vs \<Rightarrow> Inr (v # vs)))"

text \<open>The body of the scanning loop at the character \<open>c = template[index]\<close>: the error
  it throws, or \<open>parts\<close> and \<open>currentPart\<close> as it leaves them. The matchers bound when a
  substitution closes were all found by \<open>processVariables\<close>, so \<open>the\<close> reads a matcher
  that is there.\<close>

definition scan_step ::
  "string \<Rightarrow> (string \<rightharpoonup> 'a ParameterMatcher) \<Rightarrow> nat \<Rightarrow> char \<Rightarrow>
   'a TemplatePart list \<Rightarrow> currentPart \<Rightarrow> 'a yerror + ('a TemplatePart list \<times> currentPart)" where
  "scan_step template matchers index c parts cur =
     (if c = CHR ''{'' then
        (case cur of
           Substitution i names m \<Rightarrow>
             Inl (YError E_BAD_SUBSTITUTION_OPENING [DString template, DNumber index])
         | Literal i v \<Rightarrow> Inr (parts @ [LiteralPart i v], Substitution index [[]] None)
         | Undefined \<Rightarrow> Inr (parts, Substitution index [[]] None))
      else if c = CHR ''}'' then
        (case cur of
           Undefined \<Rightarrow>
             Inl (YError E_UNEXPECTED_SUBSTITUTION_CLOSING [DString template, DNumber index])
         | Literal i v \<Rightarrow>
             Inl (YError E_UNEXPECTED_SUBSTITUTION_CLOSING [DString template, DNumber index])
         | Substitution i names m \<Rightarrow>
             if last names = [] then
               Inl (YError E_BAD_SUBSTITUTION_NAME [DString template, DNumber i, DNumber index])
             else
               (case processVariables matchers names of
                  Inl e \<Rightarrow> Inl (YError e [DString template, DNumber i, DNumber index])
                | Inr vs \<Rightarrow>
                    Inr (parts @
                           [SubstitutionPart i vs (map (\<lambda>v. the (matchers (name v))) vs) m],
                         Undefined)))
      else
        (case cur of
           Substitution i names m \<Rightarrow>
             if m = None \<and> hd names = [] \<and> modifier_of_char c \<noteq> None then
               Inr (parts, Substitution i names (modifier_of_char c))
             else if c = CHR '','' then
               (if last names = [] then
                  Inl (YError E_EMPTY_SUBSTITUTION_NAME
                         [DString template, DNumber i, DNumber index])
                else Inr (parts, Substitution i (names @ [[]]) m))
             else Inr (parts, Substitution i (butlast names @ [last names @ [c]]) m)
         | Undefined \<Rightarrow> Inr (parts, Literal index [c])
         | Literal i v \<Rightarrow> Inr (parts, Literal i (v @ [c]))))"

text \<open>The loop \<open>for (let index = 0; index < length; index++)\<close>: \<open>rest\<close> is the template
  from \<open>index\<close> on.\<close>

fun scan ::
  "string \<Rightarrow> (string \<rightharpoonup> 'a ParameterMatcher) \<Rightarrow> nat \<Rightarrow> string \<Rightarrow>
   'a TemplatePart list \<Rightarrow> currentPart \<Rightarrow> 'a yerror + ('a TemplatePart list \<times> currentPart)" where
  "scan template matchers index [] parts cur = Inr (parts, cur)"
| "scan template matchers index (c # rest) parts cur =
     (case scan_step template matchers index c parts cur of
        Inl e \<Rightarrow> Inl e
      | Inr (parts', cur') \<Rightarrow> scan template matchers (Suc index) rest parts' cur')"

definition templateParser ::
  "string \<Rightarrow> (string \<rightharpoonup> 'a ParameterMatcher) \<Rightarrow> 'a yerror + 'a TemplatePart list" where
  "templateParser template matchers =
     (case scan template matchers 0 template [] Undefined of
        Inl e \<Rightarrow> Inl e
      | Inr (parts, cur) \<Rightarrow>
          (case cur of
             Undefined \<Rightarrow> Inr parts
           | Literal i v \<Rightarrow> Inr (parts @ [LiteralPart i v])
           | Substitution i names m \<Rightarrow>
               Inl (YError E_EXPECTED_SUBSTITUTION_CLOSING
                      [DString template, DNumber i, DNumber (length template)])))"

section \<open>Escaping (index.ts, escape and doNotEscape)\<close>

text \<open>
  \<open>encodeURIComponent\<close> and \<open>encodeURI\<close> are built-ins; they are modelled from the
  ECMAScript specification (the abstract operation \<open>Encode\<close>): a character of the unescaped
  set is kept, every other one is replaced by \<open>%XX\<close> for each byte of its UTF-8 encoding,
  in upper-case hexadecimal. The unescaped set of \<open>encodeURIComponent\<close> is the letters,
  the digits and \<open>- _ . ! ~ * ' ( )\<close>; \<open>encodeURI\<close> adds \<open>; / ? : @ & = + $ , #\<close>.
\<close>

definition uriUnescaped :: "char \<Rightarrow> bool" where
  "uriUnescaped c =
     (c \<in> set ''ABCDEFGHIJKLMNOPQRSTUVWXYZabcdefghijklmnopqrstuvwxyz0123456789-_.!~*()'' \<or>
      c = CHR 0x27)"

definition uriReserved :: "char \<Rightarrow> bool" where
  "uriReserved c = (c \<in> set '';/?:@&=+$,'')"

definition hex_digit :: "nat \<Rightarrow> char" where
  "hex_digit n = ''0123456789ABCDEF'' ! (n mod 16)"

definition percent_encode :: "char \<Rightarrow> string" where
  "percent_encode c = [CHR ''%'', hex_digit (of_char c div 16), hex_digit (of_char c)]"

definition encodeURIComponent :: "string \<Rightarrow> string" where
  "encodeURIComponent str =
     concat (map (\<lambda>c. if uriUnescaped c then [c] else percent_encode c) str)"

definition encodeURI :: "string \<Rightarrow> string" where
  "encodeURI str =
     concat (map (\<lambda>c. if uriUnescaped c \<or> uriReserved c \<or> c = CHR ''#'' then [c]
                       else percent_encode c) str)"

text \<open>\<open>str.replace(/!/g, '%21')\<close>\<close>

definition replace_bang :: "string \<Rightarrow> string" where
  "replace_bang str = concat (map (\<lambda>c. if c = CHR ''!'' then ''%21'' else [c]) str)"

definition escape :: "string \<Rightarrow> string" where
  "escape str = replace_bang (encodeURIComponent str)"

text \<open>\<open>str.replace(/%25[0-9][0-9]/g, (doubleEncoded) => '%' + doubleEncoded.substring(3))\<close>:
  from left to right, a match is replaced and the search goes on after it.\<close>

fun replace_double_encoded :: "string \<Rightarrow> string" where
  "replace_double_encoded (c0 # c1 # c2 # d1 # d2 # rest) =
     (if c0 = CHR ''%'' \<and> c1 = CHR ''2'' \<and> c2 = CHR ''5'' \<and> is_digit d1 \<and> is_digit d2
      then CHR ''%'' # d1 # d2 # replace_double_encoded rest
      else c0 # replace_double_encoded (c1 # c2 # d1 # d2 # rest))"
| "replace_double_encoded (c # cs) = c # replace_double_encoded cs"
| "replace_double_encoded [] = []"

definition doNotEscape :: "string \<Rightarrow> string" where
  "doNotEscape str = replace_double_encoded (encodeURI str)"

section \<open>Expansion (index.ts, URITemplate)\<close>

record specs =
  prefix :: string
  separator :: string
  noEscape :: bool
  named :: bool
  trimEmptyString :: bool

definition DEFAULT_SPECS :: specs where
  "DEFAULT_SPECS =
     \<lparr> prefix = [], separator = '','', noEscape = False, named = False,
       trimEmptyString = False \<rparr>"

fun MODIFIERS_SPECS :: "modifier \<Rightarrow> specs" where
  "MODIFIERS_SPECS Plus =
     \<lparr> prefix = [], separator = '','', noEscape = True, named = False,
       trimEmptyString = False \<rparr>"
| "MODIFIERS_SPECS Hash =
     \<lparr> prefix = ''#'', separator = '','', noEscape = True, named = False,
       trimEmptyString = False \<rparr>"
| "MODIFIERS_SPECS Dot =
     \<lparr> prefix = ''.'', separator = ''.'', noEscape = False, named = False,
       trimEmptyString = False \<rparr>"
| "MODIFIERS_SPECS Slash =
     \<lparr> prefix = ''/'', separator = ''/'', noEscape = False, named = False,
       trimEmptyString = False \<rparr>"
| "MODIFIERS_SPECS Semicolon =
     \<lparr> prefix = '';'', separator = '';'', noEscape = False, named = True,
       trimEmptyString = True \<rparr>"
| "MODIFIERS_SPECS Question =
     \<lparr> prefix = ''?'', separator = ''&'', noEscape = False, named = True,
       trimEmptyString = False \<rparr>"
| "MODIFIERS_SPECS Ampersand =
     \<lparr> prefix = ''&'', separator = ''&'', noEscape = False, named = True,
       trimEmptyString = False \<rparr>"

text \<open>\<open>xs.join(sep)\<close>\<close>

fun join :: "string \<Rightarrow> string list \<Rightarrow> string" where
  "join sep [] = []"
| "join sep [x] = x"
| "join sep (x # y # ys) = x @ sep @ join sep (y # ys)"

record 'a URITemplate =
  this_template :: string
  this_matchers :: "string \<rightharpoonup> 'a ParameterMatcher"
  this_parts :: "'a TemplatePart list"

text \<open>The constructor: it throws what \<open>templateParser\<close> throws.\<close>

definition URITemplate_new ::
  "string \<Rightarrow> (string \<rightharpoonup> 'a ParameterMatcher) \<Rightarrow> 'a yerror + 'a URITemplate" where
  "URITemplate_new template matchers =
     (case templateParser template matchers of
        Inl e \<Rightarrow> Inl e
      | Inr parts \<Rightarrow>
          Inr \<lparr> this_template = template, this_matchers = matchers, this_parts = parts \<rparr>)"

subsection \<open>toString\<close>

text \<open>\<open>str.replace(/"/g, '\\"')\<close>: a backslash before every double quote.\<close>

definition escape_quotes :: "string \<Rightarrow> string" where
  "escape_quotes str =
     concat (map (\<lambda>c. if c = CHR 0x22 then [CHR 0x5C, CHR 0x22] else [c]) str)"

definition toString :: "'a URITemplate \<Rightarrow> string" where
  "toString t =
     [CHR ''['', CHR 0x22] @ escape_quotes (this_template t) @ CHR 0x22 # '' URITemplate]''"

text \<open>Not part of the library: how the template is read back from the text that
  \<open>toString\<close> returns (the two characters before it and the fourteen after it are
  dropped, and the backslash before a double quote is removed).\<close>

fun unescape_quotes :: "string \<Rightarrow> string" where
  "unescape_quotes (b # q # rest) =
     (if b = CHR 0x5C \<and> q = CHR 0x22 then CHR 0x22 # unescape_quotes rest
      else b # unescape_quotes (q # rest))"
| "unescape_quotes [c] = [c]"
| "unescape_quotes [] = []"

definition original_of_description :: "string \<Rightarrow> string" where
  "original_of_description d = unescape_quotes (take (length d - 16) (drop 2 d))"

subsection \<open>serialize\<close>

text \<open>
  \<open>serialize\<close> only ever reads \<open>params[variable.name]\<close>. In the definitions below
  \<open>params name\<close> is the value of that expression, \<open>None\<close> when it is \<open>undefined\<close> because
  the object has no such property. The expression looks a property up in the object itself
  and then along its prototype chain (\<open>property_read\<close>). For an object literal the chain
  is \<open>Object.prototype\<close>, whose members are modelled from the ECMAScript specification:
  functions, and under \<open>__proto__\<close> the prototype itself, an object without enumerable
  property. So in \<open>plain_object own\<close> a parameter that \<open>own\<close> does not bind is missing only
  if its name is not a member of \<open>Object.prototype\<close>.
\<close>

definition property_read ::
  "(string \<rightharpoonup> 'a jsvalue) \<Rightarrow> (string \<rightharpoonup> 'a jsvalue) \<Rightarrow> string \<rightharpoonup> 'a jsvalue" where
  "property_read own inherited key =
     (case own key of Some v \<Rightarrow> Some v | None \<Rightarrow> inherited key)"

definition Object_prototype :: "string \<rightharpoonup> 'n primitive jsvalue" where
  "Object_prototype key =
     (if key \<in> set [''constructor'', ''hasOwnProperty'', ''isPrototypeOf'',
                     ''propertyIsEnumerable'', ''toLocaleString'', ''toString'', ''valueOf'',
                     ''__defineGetter__'', ''__defineSetter__'', ''__lookupGetter__'',
                     ''__lookupSetter__'']
      then Some (JPrim JFunction)
      else if key = ''__proto__'' then Some (JObject [])
      else None)"

definition plain_object :: "(string \<rightharpoonup> 'n primitive jsvalue) \<Rightarrow> string \<rightharpoonup> 'n primitive jsvalue" where
  "plain_object own = property_read own Object_prototype"

definition valueIsAnArray :: "'a jsvalue \<Rightarrow> bool" where
  "valueIsAnArray v = (case v of JArray xs \<Rightarrow> True | _ \<Rightarrow> False)"

definition valueIsARecord :: "'a jsvalue \<Rightarrow> bool" where
  "valueIsARecord v = (case v of JObject kvs \<Rightarrow> True | _ \<Rightarrow> False)"

definition valueIsAnObject :: "'a jsvalue \<Rightarrow> bool" where
  "valueIsAnObject v = (valueIsAnArray v \<or> valueIsARecord v)"

text \<open>\<open>Object.keys(params[variable.name])\<close>, and \<open>values\<close>: the elements of an array, the
  values of a record in the order of its keys, or the one value.\<close>

definition Object_keys :: "'a jsvalue \<Rightarrow> string list" where
  "Object_keys v = (case v of JObject kvs \<Rightarrow> map fst kvs | _ \<Rightarrow> [])"

definition values_of :: "'a jsvalue \<Rightarrow> 'a list" where
  "values_of v =
     (case v of
        JArray xs \<Rightarrow> xs
      | JObject kvs \<Rightarrow> map snd kvs
      | JPrim x \<Rightarrow> [x]
      | JNull \<Rightarrow> [])"

text \<open>\<open>serializedValues\<close>: the first invalid value throws.\<close>

fun serializedValues ::
  "'a ParameterMatcher \<Rightarrow> string \<Rightarrow> nat \<Rightarrow> 'a list \<Rightarrow> 'a yerror + string list" where
  "serializedValues matcher vname valueIndex [] = Inr []"
| "serializedValues matcher vname valueIndex (x # xs) =
     (if \<not> isValid matcher x then
        Inl (YError E_INVALID_VARIABLE_VALUE [DString vname, DNumber valueIndex, DValue (JPrim x)])
      else
        (case serializedValues matcher vname (Suc valueIndex) xs of
           Inl e \<Rightarrow> Inl e
         | Inr ss \<Rightarrow> Inr (serialize matcher x # ss)))"

text \<open>\<open>s.substring(0, n)\<close>\<close>

definition substring0 :: "int \<Rightarrow> string \<Rightarrow> string" where
  "substring0 n s = take (nat n) s"

definition truncatedValues :: "variable \<Rightarrow> string list \<Rightarrow> string list" where
  "truncatedValues var ss =
     map (\<lambda>s. case truncateLength var of Some n \<Rightarrow> substring0 n s | None \<Rightarrow> s) ss"

text \<open>The \<open>reduce\<close> that puts each key of a record before its value.\<close>

fun interleave :: "string list \<Rightarrow> string list \<Rightarrow> string list" where
  "interleave (k # ks) (t # ts) = k # t # interleave ks ts"
| "interleave ks [] = []"
| "interleave [] ts = []"

definition escape_with :: "specs \<Rightarrow> string \<Rightarrow> string" where
  "escape_with sp s = (if noEscape sp then doNotEscape s else escape s)"

definition escapedValues :: "specs \<Rightarrow> variable \<Rightarrow> 'a jsvalue \<Rightarrow> string list \<Rightarrow> string list" where
  "escapedValues sp var v ts =
     map (escape_with sp)
       (if valueIsARecord v \<and> \<not> explode var then interleave (Object_keys v) ts else ts)"

definition isEmpty :: "string list \<Rightarrow> bool" where
  "isEmpty ts = (length ts = 0 \<or> list_all (\<lambda>t. t = []) ts)"

definition variableName :: "variable \<Rightarrow> 'a jsvalue \<Rightarrow> nat \<Rightarrow> string" where
  "variableName var v index =
     (if valueIsARecord v \<and> explode var then Object_keys v ! index else name var)"

definition variableNames :: "specs \<Rightarrow> variable \<Rightarrow> 'a jsvalue \<Rightarrow> string list \<Rightarrow> string list" where
  "variableNames sp var v ts =
     map (\<lambda>index.
            if (named sp \<or> (explode var \<and> valueIsARecord v)) \<and> (index = 0 \<or> explode var)
            then escape_with sp (variableName var v index) @
                 (if trimEmptyString sp \<and> isEmpty ts then [] else ''='')
            else [])
       [0..<length ts]"

text \<open>The final \<open>reduce\<close>; \<open>variableNames[index] || ''\<close> is empty beyond the end of
  \<open>variableNames\<close>.\<close>

definition joinValues :: "specs \<Rightarrow> variable \<Rightarrow> string list \<Rightarrow> string list \<Rightarrow> string" where
  "joinValues sp var names es =
     foldl (\<lambda>str (index, escapedValue).
              str @ (if index > 0 then (if explode var then separator sp else '','') else []) @
              (if index < length names then names ! index else []) @ escapedValue)
       [] (enumerate 0 es)"

text \<open>The callback of \<open>part.variables.map\<close>, with \<open>params\<close> the property read described
  above; the result \<open>None\<close> is \<open>null\<close>.\<close>

definition serializeVariable ::
  "specs \<Rightarrow> (string \<rightharpoonup> 'a jsvalue) \<Rightarrow> variable \<Rightarrow> 'a ParameterMatcher \<Rightarrow>
   'a yerror + string option" where
  "serializeVariable sp params var matcher =
     (case params (name var) of
        None \<Rightarrow> Inr None
      | Some JNull \<Rightarrow> Inr None
      | Some v \<Rightarrow>
          if type matcher = type_record \<and> \<not> valueIsARecord v then
            Inl (YError E_EXPECTED_A_RECORD [DString (name var), DValue v])
          else if type matcher = type_list \<and> \<not> valueIsAnArray v then
            Inl (YError E_EXPECTED_A_LIST [DString (name var), DValue v])
          else if type matcher = type_value \<and> valueIsAnObject v then
            Inl (YError E_EXPECTED_A_LITERAL_VALUE [DString (name var), DValue v])
          else
            (case serializedValues matcher (name var) 0 (values_of v) of
               Inl e \<Rightarrow> Inl e
             | Inr ss \<Rightarrow>
                 if isEmpty (truncatedValues var ss) \<and> valueIsARecord v then Inr None
                 else
                   Inr (Some (joinValues sp var
                                (variableNames sp var v (truncatedValues var ss))
                                (escapedValues sp var v (truncatedValues var ss))))))"

text \<open>\<open>part.variables.map\<close> over the variables with their matchers (two lists of the same
  length), stopping at the first error.\<close>

fun serializeVariables ::
  "specs \<Rightarrow> (string \<rightharpoonup> 'a jsvalue) \<Rightarrow> (variable \<times> 'a ParameterMatcher) list \<Rightarrow>
   'a yerror + string option list" where
  "serializeVariables sp params [] = Inr []"
| "serializeVariables sp params ((var, matcher) # rest) =
     (case serializeVariable sp params var matcher of
        Inl e \<Rightarrow> Inl e
      | Inr r \<Rightarrow>
          (case serializeVariables sp params rest of
             Inl e \<Rightarrow> Inl e
           | Inr rs \<Rightarrow> Inr (r # rs)))"

text \<open>\<open>results.filter((a) => a !== null)\<close>\<close>

definition not_null :: "string option list \<Rightarrow> string list" where
  "not_null rs = concat (map (\<lambda>r. case r of None \<Rightarrow> [] | Some s \<Rightarrow> [s]) rs)"

definition part_specs :: "modifier option \<Rightarrow> specs" where
  "part_specs m = (case m of Some c \<Rightarrow> MODIFIERS_SPECS c | None \<Rightarrow> DEFAULT_SPECS)"

fun serializePart :: "(string \<rightharpoonup> 'a jsvalue) \<Rightarrow> 'a TemplatePart \<Rightarrow> 'a yerror + string" where
  "serializePart params (LiteralPart i v) = Inr v"
| "serializePart params (SubstitutionPart i vars ms m) =
     (case serializeVariables (part_specs m) params (zip vars ms) of
        Inl e \<Rightarrow> Inl e
      | Inr rs \<Rightarrow>
          if length (not_null rs) = 0 then Inr []
          else Inr (prefix (part_specs m) @ join (separator (part_specs m)) (not_null rs)))"

fun serializeParts ::
  "(string \<rightharpoonup> 'a jsvalue) \<Rightarrow> 'a TemplatePart list \<Rightarrow> 'a yerror + string list" where
  "serializeParts params [] = Inr []"
| "serializeParts params (part # rest) =
     (case serializePart params part of
        Inl e \<Rightarrow> Inl e
      | Inr s \<Rightarrow>
          (case serializeParts params rest of
             Inl e \<Rightarrow> Inl e
           | Inr ss \<Rightarrow> Inr (s # ss)))"

definition URITemplate_serialize ::
  "'a URITemplate \<Rightarrow> (string \<rightharpoonup> 'a jsvalue) \<Rightarrow> 'a yerror + string" where
  "URITemplate_serialize t params =
     (case serializeParts params (this_parts t) of
        Inl e \<Rightarrow> Inl e
      | Inr ss \<Rightarrow> Inr (join [] ss))"

text \<open>\<open>new URITemplate(template, matchers).serialize(params)\<close>\<close>

definition expand ::
  "string \<Rightarrow> (string \<rightharpoonup> 'a ParameterMatcher) \<Rightarrow> (string \<rightharpoonup> 'a jsvalue) \<Rightarrow> 'a yerror + string" where
  "expand template matchers params =
     (case URITemplate_new template matchers of
        Inl e \<Rightarrow> Inl e
      | Inr t \<Rightarrow> URITemplate_serialize t params)"

section \<open>Invariants of the parser\<close>

text \<open>What every variable of a compiled substitution satisfies.\<close>

definition variable_ok :: "variable \<Rightarrow> bool" where
  "variable_ok v =
     (\<not> (explode v \<and> truncateLength v \<noteq> None) \<and>
      (\<forall>n. truncateLength v = Some n \<longrightarrow> 0 \<le> n))"

text \<open>Two literal parts next to each other somewhere in the list.\<close>

fun adjacent_literals :: "'a TemplatePart list \<Rightarrow> bool" where
  "adjacent_literals (p # q # ps) = ((is_literal p \<and> is_literal q) \<or> adjacent_literals (q # ps))"
| "adjacent_literals [p] = False"
| "adjacent_literals [] = False"

text \<open>The invariant of the scanning loop before it reads \<open>template[index]\<close>: the parts
  pushed so far are well formed and start before the part being read, and a literal is
  only being read after a substitution or at the start. The substitution being read
  always has a variable, so \<open>hd\<close> and \<open>last\<close> in \<open>scan_step\<close> read an element.\<close>

definition scan_inv :: "nat \<Rightarrow> 'a TemplatePart list \<Rightarrow> currentPart \<Rightarrow> bool" where
  "scan_inv index parts cur =
     (sorted_wrt (<) (map part_index parts) \<and>
      list_all (\<lambda>p. is_literal p \<longrightarrow> literal_value p \<noteq> []) parts \<and>
      \<not> adjacent_literals parts \<and>
      (case cur of
         Undefined \<Rightarrow>
           list_all (\<lambda>p. part_index p < index) parts \<and> (parts = [] \<or> \<not> is_literal (last parts))
       | Literal i v \<Rightarrow>
           v \<noteq> [] \<and> i < index \<and> list_all (\<lambda>p. part_index p < i) parts \<and>
           (parts = [] \<or> \<not> is_literal (last parts))
       | Substitution i names m \<Rightarrow>
           names \<noteq> [] \<and> i < index \<and> list_all (\<lambda>p. part_index p < i) parts))"

section \<open>Properties of the matchers\<close>

text \<open>
  C1 (the boolean matcher's parse accepts exactly "true" and "false"). The code does the
  opposite: \<open>asBoolean.parse\<close> raises \<open>E_CANNOT_PARSE_BOOLEAN\<close> on exactly the two tokens
  "true" and "false", and returns \<open>false\<close> for every other string.
\<close>

theorem asBoolean_parse_inverted:
  "asBoolean_parse s =
     (if s = ''true'' \<or> s = ''false''
      then Inl (YError E_CANNOT_PARSE_BOOLEAN [DString s])
      else Inr (JBoolean False))"
  by (simp add: asBoolean_parse_def)

text \<open>
  C2 (the number matcher's parse raises the canonical-representation error when the
  re-stringified value differs from the text). The code compares the text with itself,
  so the second check never fires: whatever \<open>parseFloat\<close> makes of the text (1000 for
  "1e3", 1 for "01") is returned, and only \<open>NaN\<close> is refused.
\<close>

theorem asNumber_parse_never_canonical_error:
  "asNumber_parse parseFloat s =
     (case parseFloat s of
        None \<Rightarrow> Inl (YError E_NOT_A_NUMBER [DString s])
      | Some x \<Rightarrow> Inr (JNumber x))"
  by (simp add: asNumber_parse_def String_toString_def split: option.splits)

lemmas parser_eval = templateParser_def scan_step_def processVariable_def strip_explode_def
  read_truncate_def check_variable_def split_def all_digits_def is_digit_def parseInt_def
  digit_value_def modifier_of_char_def valid_name_def is_word_char_def

section \<open>Properties of the parser\<close>

text \<open>
  C3 (a truncate suffix must be all digits up to the end of the name, so "a:1:2" is
  rejected). The code tests only the piece between the first and the second colon
  (\<open>name.split(':')[1]\<close>): "{a:1:2}" compiles, to the variable \<open>a\<close> truncated to 1, and
  what follows the second colon is dropped.
\<close>

theorem templateParser_second_colon_ignored:
  "templateParser ''{a:1:2}'' [''a'' \<mapsto> asString] =
     Inr [SubstitutionPart 0 [\<lparr> name = ''a'', explode = False, truncateLength = Some 1 \<rparr>]
            [asString] None]"
  by (simp add: parser_eval)

subsection \<open>Explode and truncate exclude each other\<close>

lemma digit_value_nonneg: "is_digit c \<Longrightarrow> 0 \<le> digit_value c"
  by (auto simp: is_digit_def digit_value_def)

lemma foldl_digits_nonneg:
  "list_all is_digit s \<Longrightarrow> 0 \<le> n \<Longrightarrow> 0 \<le> foldl (\<lambda>n c. 10 * n + digit_value c) n s"
proof (induction s arbitrary: n)
  case Nil
  then show ?case by simp
next
  case (Cons c s)
  from Cons.prems have "0 \<le> 10 * n + digit_value c"
    using digit_value_nonneg [of c] by simp
  with Cons show ?case by simp
qed

lemma parseInt_nonneg: "all_digits s \<Longrightarrow> 0 \<le> parseInt s"
  by (simp add: all_digits_def parseInt_def foldl_digits_nonneg)

lemma processVariable_ok:
  assumes "processVariable matchers raw = Inr v"
  shows "variable_ok v"
proof -
  let ?v0 = "strip_explode \<lparr> name = raw, explode = False, truncateLength = None \<rparr>"
  from assms obtain v1 where rt: "read_truncate ?v0 = Inr v1"
    and ck: "check_variable matchers v1 = Inr v"
    by (auto simp: processVariable_def split: sum.splits)
  have v0: "truncateLength ?v0 = None" by (simp add: strip_explode_def)
  from rt v0 have "\<forall>n. truncateLength v1 = Some n \<longrightarrow> 0 \<le> n"
    by (auto simp: read_truncate_def parseInt_nonneg split: if_splits)
  moreover from ck have "v = v1" "\<not> (truncateLength v1 \<noteq> None \<and> explode v1)"
    by (auto simp: check_variable_def split: if_splits)
  ultimately show ?thesis by (auto simp: variable_ok_def)
qed

lemma processVariables_ok:
  "processVariables matchers raws = Inr vs \<Longrightarrow> list_all variable_ok vs"
proof (induction raws arbitrary: vs)
  case Nil
  then show ?case by simp
next
  case (Cons raw raws)
  then show ?case
    by (auto split: sum.splits dest: processVariable_ok)
qed

lemma processVariable_matcher_found:
  "processVariable matchers raw = Inr v \<Longrightarrow> matchers (name v) \<noteq> None"
  by (auto simp: processVariable_def check_variable_def split: sum.splits if_splits)

lemma processVariables_matchers_found:
  "processVariables matchers raws = Inr vs \<Longrightarrow> list_all (\<lambda>v. matchers (name v) \<noteq> None) vs"
  by (induction raws arbitrary: vs)
    (auto split: sum.splits dest: processVariable_matcher_found)

lemma processVariable_explode_truncate:
  assumes "CHR '':'' \<in> set n"
  shows "processVariable matchers (n @ ''*'') = Inl E_BAD_SUBSTITUTION_TRUNCATE"
proof -
  have se: "strip_explode \<lparr> name = n @ ''*'', explode = False, truncateLength = None \<rparr> =
      \<lparr> name = n, explode = True, truncateLength = None \<rparr>"
    by (simp add: strip_explode_def)
  show ?thesis
    using assms
    by (simp add: processVariable_def se read_truncate_def check_variable_def)
qed

lemma processVariables_explode_truncate:
  assumes "CHR '':'' \<in> set n"
  shows "\<exists>e. processVariables matchers (pre @ (n @ ''*'') # post) = Inl e"
  using processVariable_explode_truncate [OF assms, of matchers]
  by (induction pre) (auto split: sum.splits)

lemma processVariables_explode_truncate_code:
  assumes "CHR '':'' \<in> set n" and "processVariables matchers pre = Inr vs"
  shows "processVariables matchers (pre @ (n @ ''*'') # post) = Inl E_BAD_SUBSTITUTION_TRUNCATE"
  using processVariable_explode_truncate [OF assms(1), of matchers] assms(2)
  by (induction pre arbitrary: vs) (auto split: sum.splits)

lemma scan_step_explode_truncate:
  assumes "CHR '':'' \<in> set n"
  shows "\<exists>e. scan_step template matchers index (CHR ''}'') parts
           (Substitution i (pre @ (n @ ''*'') # post) m) = Inl e"
  using processVariables_explode_truncate [OF assms, of matchers pre post]
  by (auto simp: scan_step_def)

lemma scan_step_variables_ok:
  assumes "scan_step template matchers index c parts cur = Inr (parts', cur')"
    and "list_all (\<lambda>p. list_all variable_ok (part_variables p)) parts"
  shows "list_all (\<lambda>p. list_all variable_ok (part_variables p)) parts'"
  using assms
  by (cases cur)
    (auto simp: scan_step_def split: if_splits sum.splits dest: processVariables_ok)

lemma scan_variables_ok:
  "scan template matchers index rest parts cur = Inr (parts', cur') \<Longrightarrow>
   list_all (\<lambda>p. list_all variable_ok (part_variables p)) parts \<Longrightarrow>
   list_all (\<lambda>p. list_all variable_ok (part_variables p)) parts'"
proof (induction rest arbitrary: index parts cur)
  case Nil
  then show ?case by simp
next
  case (Cons c rest)
  from Cons.prems(1) obtain parts2 cur2 where
    step: "scan_step template matchers index c parts cur = Inr (parts2, cur2)" and
    rest: "scan template matchers (Suc index) rest parts2 cur2 = Inr (parts', cur')"
    by (auto split: sum.splits)
  show ?case
    by (rule Cons.IH [OF rest scan_step_variables_ok [OF step Cons.prems(2)]])
qed

lemma templateParser_variables_ok:
  assumes "templateParser template matchers = Inr parts"
  shows "list_all (\<lambda>p. list_all variable_ok (part_variables p)) parts"
proof -
  from assms obtain ps cur where
    sc: "scan template matchers 0 template [] Undefined = Inr (ps, cur)"
    by (auto simp: templateParser_def split: sum.splits)
  from scan_variables_ok [OF sc] have "list_all (\<lambda>p. list_all variable_ok (part_variables p)) ps"
    by simp
  with assms sc show ?thesis
    by (cases cur) (auto simp: templateParser_def)
qed

text \<open>
  C4: a variable that has both a trailing \<open>*\<close> and a colon is rejected with
  \<open>E_BAD_SUBSTITUTION_TRUNCATE\<close> (whatever stands after the colon): the loop over the
  variables of a substitution throws when it holds one, with that error when the variables
  before it are accepted, so closing the substitution throws; compiling "{hello:2*}" fails
  with that error; and in every compiled template no variable has both \<open>explode\<close> and
  \<open>truncate\<close>, and a \<open>truncate\<close> is never negative.
\<close>

theorem explode_truncate_exclusive:
  "(CHR '':'' \<in> set n \<longrightarrow>
      processVariable matchers (n @ ''*'') = Inl E_BAD_SUBSTITUTION_TRUNCATE \<and>
      (\<exists>e. processVariables matchers (pre @ (n @ ''*'') # post) = Inl e) \<and>
      (\<forall>vs. processVariables matchers pre = Inr vs \<longrightarrow>
         processVariables matchers (pre @ (n @ ''*'') # post) =
           Inl E_BAD_SUBSTITUTION_TRUNCATE) \<and>
      (\<exists>e. scan_step template matchers index (CHR ''}'') ps
             (Substitution i (pre @ (n @ ''*'') # post) md) = Inl e)) \<and>
   templateParser ''{hello:2*}'' matchers =
     Inl (YError E_BAD_SUBSTITUTION_TRUNCATE [DString ''{hello:2*}'', DNumber 0, DNumber 9]) \<and>
   (templateParser template matchers = Inr parts \<longrightarrow>
      (\<forall>p \<in> set parts. \<forall>v \<in> set (part_variables p).
         \<not> (explode v \<and> truncateLength v \<noteq> None) \<and>
         (\<forall>n. truncateLength v = Some n \<longrightarrow> 0 \<le> n)))"
proof (intro conjI impI)
  assume "CHR '':'' \<in> set n"
  then show "processVariable matchers (n @ ''*'') = Inl E_BAD_SUBSTITUTION_TRUNCATE"
    by (rule processVariable_explode_truncate)
next
  assume "CHR '':'' \<in> set n"
  then show "\<exists>e. processVariables matchers (pre @ (n @ ''*'') # post) = Inl e"
    by (rule processVariables_explode_truncate)
next
  assume "CHR '':'' \<in> set n"
  then show "\<forall>vs. processVariables matchers pre = Inr vs \<longrightarrow>
         processVariables matchers (pre @ (n @ ''*'') # post) =
           Inl E_BAD_SUBSTITUTION_TRUNCATE"
    by (auto intro: processVariables_explode_truncate_code)
next
  assume "CHR '':'' \<in> set n"
  then show "\<exists>e. scan_step template matchers index (CHR ''}'') ps
             (Substitution i (pre @ (n @ ''*'') # post) md) = Inl e"
    by (rule scan_step_explode_truncate)
next
  show "templateParser ''{hello:2*}'' matchers =
     Inl (YError E_BAD_SUBSTITUTION_TRUNCATE [DString ''{hello:2*}'', DNumber 0, DNumber 9])"
    by (simp add: parser_eval)
next
  assume "templateParser template matchers = Inr parts"
  from templateParser_variables_ok [OF this]
  show "\<forall>p \<in> set parts. \<forall>v \<in> set (part_variables p).
         \<not> (explode v \<and> truncateLength v \<noteq> None) \<and>
         (\<forall>n. truncateLength v = Some n \<longrightarrow> 0 \<le> n)"
    by (auto simp: list_all_iff variable_ok_def)
qed

theorem explode_truncate_exclusive_witness:
  "CHR '':'' \<in> set ''hello:2'' \<and>
   processVariable Map.empty (''hello:2'' @ ''*'') = Inl E_BAD_SUBSTITUTION_TRUNCATE \<and>
   (\<exists>e. processVariables Map.empty ([''a''] @ (''hello:2'' @ ''*'') # [''b'']) = Inl e) \<and>
   processVariables [''a'' \<mapsto> (asString :: int primitive ParameterMatcher)]
     ([''a''] @ (''hello:2'' @ ''*'') # [''b'']) = Inl E_BAD_SUBSTITUTION_TRUNCATE \<and>
   templateParser ''{var:3}'' [''var'' \<mapsto> (asString :: int primitive ParameterMatcher)] =
     Inr [SubstitutionPart 0 [\<lparr> name = ''var'', explode = False, truncateLength = Some 3 \<rparr>]
            [asString] None] \<and>
   \<not> (explode \<lparr> name = ''var'', explode = False, truncateLength = Some 3 \<rparr> \<and>
      truncateLength \<lparr> name = ''var'', explode = False, truncateLength = Some 3 \<rparr> \<noteq> None) \<and>
   (0::int) \<le> 3"
proof -
  let ?m = "[''var'' \<mapsto> (asString :: int primitive ParameterMatcher)]"
  let ?v = "\<lparr> name = ''var'', explode = False, truncateLength = Some 3 \<rparr>"
  let ?parts = "[SubstitutionPart 0 [?v] [asString :: int primitive ParameterMatcher] None]"
  have colon: "CHR '':'' \<in> set ''hello:2''" by simp
  have compiled: "templateParser ''{var:3}'' ?m = Inr ?parts"
    by (simp add: parser_eval)
  let ?a = "[''a'' \<mapsto> (asString :: int primitive ParameterMatcher)]"
  have first: "processVariables ?a [''a''] =
      Inr [\<lparr> name = ''a'', explode = False, truncateLength = None \<rparr>]"
    by (simp add: parser_eval)
  note rejected =
    explode_truncate_exclusive [where n = "''hello:2''" and matchers = Map.empty
      and pre = "[''a'']" and post = "[''b'']", THEN conjunct1, THEN mp, OF colon]
  note rejected_code =
    explode_truncate_exclusive [where n = "''hello:2''" and matchers = ?a
      and pre = "[''a'']" and post = "[''b'']", THEN conjunct1, THEN mp, OF colon,
      THEN conjunct2, THEN conjunct2, THEN conjunct1, rule_format, OF first]
  note invariant =
    explode_truncate_exclusive [where matchers = ?m and template = "''{var:3}''"
      and parts = ?parts, THEN conjunct2, THEN conjunct2, rule_format, OF compiled]
  have ok: "\<not> (explode ?v \<and> truncateLength ?v \<noteq> None) \<and>
      (\<forall>n. truncateLength ?v = Some n \<longrightarrow> 0 \<le> n)"
    by (rule invariant [of "hd ?parts" ?v]) simp_all
  show ?thesis
  proof (intro conjI)
    show "CHR '':'' \<in> set ''hello:2''" by (rule colon)
    show "processVariable Map.empty (''hello:2'' @ ''*'') = Inl E_BAD_SUBSTITUTION_TRUNCATE"
      using rejected by (rule conjunct1)
    show "\<exists>e. processVariables Map.empty ([''a''] @ (''hello:2'' @ ''*'') # [''b'']) = Inl e"
      using rejected [THEN conjunct2] by (rule conjunct1)
    show "processVariables ?a ([''a''] @ (''hello:2'' @ ''*'') # [''b'']) =
        Inl E_BAD_SUBSTITUTION_TRUNCATE"
      by (rule rejected_code)
    show "templateParser ''{var:3}'' ?m = Inr ?parts" by (rule compiled)
    show "\<not> (explode ?v \<and> truncateLength ?v \<noteq> None)" using ok by (rule conjunct1)
    show "(0::int) \<le> 3" using ok by simp
  qed
qed

subsection \<open>The parts of a compiled template\<close>

lemma adjacent_literals_snoc:
  "adjacent_literals (ps @ [p]) =
     (adjacent_literals ps \<or> (ps \<noteq> [] \<and> is_literal (last ps) \<and> is_literal p))"
  by (induction ps rule: adjacent_literals.induct) auto

lemma sorted_wrt_snoc_index:
  "sorted_wrt (<) (map part_index ps @ [i]) =
     (sorted_wrt (<) (map part_index ps) \<and> (\<forall>q \<in> set ps. part_index q < i))"
  by (auto simp: sorted_wrt_append)

lemma scan_step_inv:
  assumes "scan_step template matchers index c parts cur = Inr (parts', cur')"
    and "scan_inv index parts cur"
  shows "scan_inv (Suc index) parts' cur'"
proof (cases cur)
  case Undefined
  with assms show ?thesis
    by (auto simp: scan_step_def scan_inv_def list_all_iff split: if_splits intro: less_SucI)
next
  case (Literal i v)
  with assms show ?thesis
    by (auto simp: scan_step_def scan_inv_def adjacent_literals_snoc sorted_wrt_snoc_index
        list_all_iff split: if_splits) (meson less_trans)
next
  case (Substitution i names m)
  with assms show ?thesis
    by (auto simp: scan_step_def scan_inv_def adjacent_literals_snoc sorted_wrt_snoc_index
        list_all_iff split: if_splits sum.splits) (meson less_SucI less_trans)
qed

lemma scan_inv_loop:
  "scan template matchers index rest parts cur = Inr (parts', cur') \<Longrightarrow>
   scan_inv index parts cur \<Longrightarrow> scan_inv (index + length rest) parts' cur'"
proof (induction rest arbitrary: index parts cur)
  case Nil
  then show ?case by simp
next
  case (Cons c rest)
  from Cons.prems(1) obtain parts2 cur2 where
    step: "scan_step template matchers index c parts cur = Inr (parts2, cur2)" and
    rest: "scan template matchers (Suc index) rest parts2 cur2 = Inr (parts', cur')"
    by (auto split: sum.splits)
  from scan_step_inv [OF step Cons.prems(2)] have "scan_inv (Suc index) parts2 cur2" .
  from Cons.IH [OF rest this] show ?case by simp
qed

lemma adjacent_literals_nth:
  "adjacent_literals ps = (\<exists>k. Suc k < length ps \<and> is_literal (ps ! k) \<and> is_literal (ps ! Suc k))"
proof (induction ps rule: adjacent_literals.induct)
  case (1 p q ps)
  show ?case
  proof
    assume "adjacent_literals (p # q # ps)"
    then consider "is_literal p \<and> is_literal q" | "adjacent_literals (q # ps)" by auto
    then show "\<exists>k. Suc k < length (p # q # ps) \<and> is_literal ((p # q # ps) ! k) \<and>
        is_literal ((p # q # ps) ! Suc k)"
    proof cases
      case 1
      then show ?thesis by (intro exI [of _ 0]) simp
    next
      case 2
      with "1.IH" obtain k where "Suc k < length (q # ps)" "is_literal ((q # ps) ! k)"
        "is_literal ((q # ps) ! Suc k)" by blast
      then show ?thesis by (intro exI [of _ "Suc k"]) simp
    qed
  next
    assume "\<exists>k. Suc k < length (p # q # ps) \<and> is_literal ((p # q # ps) ! k) \<and>
        is_literal ((p # q # ps) ! Suc k)"
    then obtain k where k: "Suc k < length (p # q # ps)" "is_literal ((p # q # ps) ! k)"
      "is_literal ((p # q # ps) ! Suc k)" by blast
    show "adjacent_literals (p # q # ps)"
    proof (cases k)
      case 0
      with k show ?thesis by simp
    next
      case (Suc j)
      with k have "Suc j < length (q # ps) \<and> is_literal ((q # ps) ! j) \<and>
        is_literal ((q # ps) ! Suc j)" by simp
      with "1.IH" show ?thesis by auto
    qed
  qed
qed simp_all

text \<open>
  C10: in the parts of every template the parser accepts, the offsets are strictly
  increasing, every literal part has a non-empty text, and no two consecutive parts are
  both literals.
\<close>

theorem templateParser_parts_wellformed:
  assumes "templateParser template matchers = Inr parts"
  shows "sorted_wrt (<) (map part_index parts) \<and>
         (\<forall>p \<in> set parts. is_literal p \<longrightarrow> literal_value p \<noteq> []) \<and>
         (\<forall>k. Suc k < length parts \<longrightarrow> \<not> (is_literal (parts ! k) \<and> is_literal (parts ! Suc k)))"
proof -
  have init: "scan_inv 0 ([] :: 'a TemplatePart list) Undefined"
    by (simp add: scan_inv_def)
  from assms obtain ps cur where
    sc: "scan template matchers 0 template [] Undefined = Inr (ps, cur)"
    by (auto simp: templateParser_def split: sum.splits)
  from scan_inv_loop [OF sc init] have inv: "scan_inv (length template) ps cur" by simp
  have "sorted_wrt (<) (map part_index parts) \<and>
        (\<forall>p \<in> set parts. is_literal p \<longrightarrow> literal_value p \<noteq> []) \<and>
        \<not> adjacent_literals parts"
    using assms sc inv
    by (cases cur)
      (auto simp: templateParser_def scan_inv_def adjacent_literals_snoc sorted_wrt_snoc_index
        list_all_iff)
  then show ?thesis
    by (simp add: adjacent_literals_nth)
qed

theorem templateParser_parts_wellformed_witness:
  "templateParser ''/a{b}c'' [''b'' \<mapsto> (asString :: int primitive ParameterMatcher)] =
     Inr [LiteralPart 0 ''/a'',
          SubstitutionPart 2 [\<lparr> name = ''b'', explode = False, truncateLength = None \<rparr>]
            [asString] None,
          LiteralPart 5 ''c''] \<and>
   sorted_wrt (<) [0, 2, 5 :: nat] \<and> ''/a'' \<noteq> [] \<and> ''c'' \<noteq> []"
proof -
  let ?m = "[''b'' \<mapsto> (asString :: int primitive ParameterMatcher)]"
  let ?parts = "[LiteralPart 0 ''/a'',
          SubstitutionPart 2 [\<lparr> name = ''b'', explode = False, truncateLength = None \<rparr>]
            [asString :: int primitive ParameterMatcher] None,
          LiteralPart 5 ''c'']"
  have compiled: "templateParser ''/a{b}c'' ?m = Inr ?parts"
    by (simp add: parser_eval)
  from templateParser_parts_wellformed [OF compiled] compiled show ?thesis by simp
qed

section \<open>Properties of the escaping\<close>

lemmas escape_eval = doNotEscape_def encodeURI_def escape_def encodeURIComponent_def
  replace_bang_def uriUnescaped_def uriReserved_def percent_encode_def hex_digit_def is_digit_def

lemmas serialize_eval = expand_def URITemplate_new_def URITemplate_serialize_def
  serializeVariable_def part_specs_def DEFAULT_SPECS_def not_null_def joinValues_def
  variableNames_def variableName_def escapedValues_def escape_with_def isEmpty_def
  truncatedValues_def substring0_def values_of_def Object_keys_def valueIsAnObject_def
  valueIsARecord_def valueIsAnArray_def asString_def asStrings_def asKeyedStrings_def
  enumerate_eq_zip upt_rec

lemma encodeURI_append: "encodeURI (a @ b) = encodeURI a @ encodeURI b"
  by (simp add: encodeURI_def)

lemma encodeURI_Cons: "encodeURI (c # b) = encodeURI [c] @ encodeURI b"
  by (simp add: encodeURI_def)

lemma replace_double_encoded_split:
  assumes "\<not> is_digit c"
  shows "replace_double_encoded (x @ c # y) =
         replace_double_encoded x @ replace_double_encoded (c # y)"
  using assms
proof (induction x rule: replace_double_encoded.induct)
  case (1 c0 c1 c2 d1 d2 rest)
  then show ?case by simp
qed ((cases y rule: replace_double_encoded.cases; auto simp: is_digit_def)+)

lemma replace_double_encoded_keep:
  "c \<noteq> CHR ''%'' \<Longrightarrow> replace_double_encoded (c # y) = c # replace_double_encoded y"
  by (cases "c # y" rule: replace_double_encoded.cases) auto

lemma doNotEscape_reserved_char:
  assumes "c \<in> set '':/?#@!$&()*+,;='' \<or> c = CHR 0x27"
  shows "doNotEscape (a @ c # b) = doNotEscape a @ c # doNotEscape b"
proof -
  from assms have enc: "encodeURI [c] = [c]"
    by (auto simp: encodeURI_def uriUnescaped_def uriReserved_def)
  from assms have nd: "\<not> is_digit c" and np: "c \<noteq> CHR ''%''"
    by (auto simp: is_digit_def)
  have "encodeURI (a @ c # b) = encodeURI a @ c # encodeURI b"
    using enc encodeURI_Cons [of c b] by (simp add: encodeURI_append)
  then show ?thesis
    by (simp add: doNotEscape_def replace_double_encoded_split [OF nd]
        replace_double_encoded_keep [OF np])
qed

lemma doNotEscape_decimal_triplet:
  assumes "is_digit d1" and "is_digit d2"
  shows "doNotEscape (a @ CHR ''%'' # d1 # d2 # b) =
         doNotEscape a @ CHR ''%'' # d1 # d2 # doNotEscape b"
proof -
  have pct: "encodeURI ''%'' = ''%25''"
    by (simp add: encodeURI_def uriUnescaped_def uriReserved_def percent_encode_def hex_digit_def)
  from assms have d: "encodeURI [d1] = [d1]" "encodeURI [d2] = [d2]"
    by (auto simp: encodeURI_def uriUnescaped_def is_digit_def)
  have "encodeURI (a @ CHR ''%'' # d1 # d2 # b) =
        encodeURI a @ CHR ''%'' # CHR ''2'' # CHR ''5'' # d1 # d2 # encodeURI b"
    using pct d encodeURI_Cons [of "CHR ''%''" "d1 # d2 # b"] encodeURI_Cons [of d1 "d2 # b"]
      encodeURI_Cons [of d2 b]
    by (simp add: encodeURI_append)
  moreover have "\<not> is_digit (CHR ''%'')" by (simp add: is_digit_def)
  ultimately show ?thesis
    using assms
    by (simp add: doNotEscape_def replace_double_encoded_split)
qed

lemma replace_double_encoded_percent:
  "c \<noteq> CHR ''2'' \<Longrightarrow>
   replace_double_encoded (CHR ''%'' # c # y) = CHR ''%'' # replace_double_encoded (c # y)"
  by (cases "CHR ''%'' # c # y" rule: replace_double_encoded.cases) auto

lemma doNotEscape_percent_encoded:
  assumes "encodeURI [c] = [CHR ''%'', h1, h2]"
    and "h1 \<noteq> CHR ''2''" and "h1 \<noteq> CHR ''%''" and "h2 \<noteq> CHR ''%''"
  shows "doNotEscape (a @ c # b) = doNotEscape a @ [CHR ''%'', h1, h2] @ doNotEscape b"
proof -
  have "encodeURI (a @ c # b) = encodeURI a @ CHR ''%'' # h1 # h2 # encodeURI b"
    using assms(1) encodeURI_Cons [of c b] by (simp add: encodeURI_append)
  moreover have "\<not> is_digit (CHR ''%'')" by (simp add: is_digit_def)
  ultimately show ?thesis
    using assms(2-4)
    by (simp add: doNotEscape_def replace_double_encoded_split
        replace_double_encoded_percent replace_double_encoded_keep)
qed

lemma doNotEscape_brackets:
  "doNotEscape (a @ CHR ''['' # b) = doNotEscape a @ ''%5B'' @ doNotEscape b"
  "doNotEscape (a @ CHR '']'' # b) = doNotEscape a @ ''%5D'' @ doNotEscape b"
  by (rule doNotEscape_percent_encoded; simp add: escape_eval)+

lemma expand_reserved_path:
  "expand ''{+path}/here'' [''path'' \<mapsto> asString] [''path'' \<mapsto> JPrim (JString ''/foo/bar'')] =
     Inr ''/foo/bar/here''"
  by (simp add: parser_eval serialize_eval escape_eval)

text \<open>
  C5 (reserved characters are left unescaped, and a percent triplet of a reserved
  character such as "%3B" is never encoded twice). The code does not do this: the pattern
  that undoes the second encoding, \<open>/%25[0-9][0-9]/\<close>, only knows decimal digits, so "%3B"
  comes out as "%253B"; and \<open>encodeURI\<close> percent-encodes the brackets wherever they stand.
  What does hold is in the lemmas above: the other reserved characters are kept
  (\<open>doNotEscape_reserved_char\<close>), a triplet of two decimal digits is kept
  (\<open>doNotEscape_decimal_triplet\<close>), and "{+path}/here" expands to "/foo/bar/here".
\<close>

theorem doNotEscape_hex_triplet_encoded_twice:
  "doNotEscape ''%3B'' = ''%253B'' \<and>
   doNotEscape (a @ CHR ''['' # b) = doNotEscape a @ ''%5B'' @ doNotEscape b \<and>
   doNotEscape (a @ CHR '']'' # b) = doNotEscape a @ ''%5D'' @ doNotEscape b"
  by (simp add: doNotEscape_brackets) (simp add: escape_eval)

section \<open>Properties of the description\<close>

lemma escape_quotes_Cons:
  "escape_quotes (c # s) =
     (if c = CHR 0x22 then CHR 0x5C # CHR 0x22 # escape_quotes s else c # escape_quotes s)"
  by (simp add: escape_quotes_def)

lemma escape_quotes_Nil: "escape_quotes [] = []"
  by (simp add: escape_quotes_def)

lemma escape_quotes_no_leading_quote: "escape_quotes s \<noteq> CHR 0x22 # r"
  by (cases s) (auto simp: escape_quotes_Cons escape_quotes_Nil)

lemma unescape_escape_quotes: "unescape_quotes (escape_quotes s) = s"
proof (induction s)
  case Nil
  then show ?case by (simp add: escape_quotes_Nil)
next
  case (Cons c s)
  show ?case
  proof (cases "c = CHR 0x22")
    case True
    with Cons show ?thesis by (simp add: escape_quotes_Cons)
  next
    case False
    show ?thesis
    proof (cases "escape_quotes s")
      case Nil
      with Cons False show ?thesis by (simp add: escape_quotes_Cons)
    next
      case (Cons q r)
      with escape_quotes_no_leading_quote [of s r] have "q \<noteq> CHR 0x22" by auto
      with Cons Cons.IH False show ?thesis by (simp add: escape_quotes_Cons)
    qed
  qed
qed

lemma escape_quotes_verbatim: "CHR 0x22 \<notin> set s \<Longrightarrow> escape_quotes s = s"
  by (induction s) (auto simp: escape_quotes_Cons escape_quotes_Nil)

text \<open>
  C8: the description of a compiled template is the template between \<open>["\<close> and
  \<open>" URITemplate]\<close> with a backslash before each double quote (so verbatim when it has
  none), and the template is recovered from the description.
\<close>

theorem toString_roundtrip:
  assumes "URITemplate_new template matchers = Inr t"
  shows "toString t =
           [CHR ''['', CHR 0x22] @ escape_quotes template @ CHR 0x22 # '' URITemplate]'' \<and>
         (CHR 0x22 \<notin> set template \<longrightarrow>
            toString t = [CHR ''['', CHR 0x22] @ template @ CHR 0x22 # '' URITemplate]'') \<and>
         original_of_description (toString t) = template"
proof -
  from assms have t: "this_template t = template"
    by (auto simp: URITemplate_new_def split: sum.splits)
  then show ?thesis
    by (simp add: toString_def original_of_description_def unescape_escape_quotes
        escape_quotes_verbatim)
qed

theorem toString_roundtrip_witness:
  "URITemplate_new (''/a'' @ CHR 0x22 # ''{var}'')
       [''var'' \<mapsto> (asString :: int primitive ParameterMatcher)] =
     Inr \<lparr> this_template = ''/a'' @ CHR 0x22 # ''{var}'',
           this_matchers = [''var'' \<mapsto> asString],
           this_parts =
             [LiteralPart 0 (''/a'' @ [CHR 0x22]),
              SubstitutionPart 3 [\<lparr> name = ''var'', explode = False, truncateLength = None \<rparr>]
                [asString] None] \<rparr> \<and>
   toString \<lparr> this_template = ''/a'' @ CHR 0x22 # ''{var}'',
           this_matchers = [''var'' \<mapsto> (asString :: int primitive ParameterMatcher)],
           this_parts =
             [LiteralPart 0 (''/a'' @ [CHR 0x22]),
              SubstitutionPart 3 [\<lparr> name = ''var'', explode = False, truncateLength = None \<rparr>]
                [asString] None] \<rparr> =
     [CHR ''['', CHR 0x22] @ ''/a'' @ [CHR 0x5C, CHR 0x22] @ ''{var}'' @ CHR 0x22 # '' URITemplate]'' \<and>
   original_of_description
     ([CHR ''['', CHR 0x22] @ ''/a'' @ [CHR 0x5C, CHR 0x22] @ ''{var}'' @ CHR 0x22 # '' URITemplate]'') =
     ''/a'' @ CHR 0x22 # ''{var}''"
proof -
  let ?m = "[''var'' \<mapsto> (asString :: int primitive ParameterMatcher)]"
  let ?t = "\<lparr> this_template = ''/a'' @ CHR 0x22 # ''{var}'', this_matchers = ?m,
           this_parts =
             [LiteralPart 0 (''/a'' @ [CHR 0x22]),
              SubstitutionPart 3 [\<lparr> name = ''var'', explode = False, truncateLength = None \<rparr>]
                [asString] None] \<rparr>"
  have new: "URITemplate_new (''/a'' @ CHR 0x22 # ''{var}'') ?m = Inr ?t"
    by (simp add: URITemplate_new_def parser_eval)
  note roundtrip = toString_roundtrip [OF new]
  from roundtrip [THEN conjunct1] have description: "toString ?t =
      [CHR ''['', CHR 0x22] @ ''/a'' @ [CHR 0x5C, CHR 0x22] @ ''{var}'' @
      CHR 0x22 # '' URITemplate]''"
    by (simp add: escape_quotes_def)
  from roundtrip [THEN conjunct2, THEN conjunct2]
  have "original_of_description (toString ?t) = ''/a'' @ CHR 0x22 # ''{var}''" .
  with description new show ?thesis by simp
qed

section \<open>Properties of the expansion\<close>

subsection \<open>The names put before the values\<close>

lemma trimEmptyString_only_semicolon: "trimEmptyString (MODIFIERS_SPECS m) = (m = Semicolon)"
  by (cases m) simp_all

lemma named_modifiers:
  "named (MODIFIERS_SPECS m) = (m = Semicolon \<or> m = Question \<or> m = Ampersand)"
  by (cases m) simp_all

lemma named_escapes: "named (MODIFIERS_SPECS m) \<Longrightarrow> escape_with (MODIFIERS_SPECS m) s = escape s"
  by (cases m) (simp_all add: escape_with_def)

lemma variableNames_nth:
  assumes "index < length ts"
  shows "variableNames sp var v ts ! index =
     (if (named sp \<or> (explode var \<and> valueIsARecord v)) \<and> (index = 0 \<or> explode var)
      then escape_with sp (variableName var v index) @
           (if trimEmptyString sp \<and> isEmpty ts then [] else ''='')
      else [])"
  using assms by (simp add: variableNames_def)

lemma length_variableNames: "length (variableNames sp var v ts) = length ts"
  by (simp add: variableNames_def)

lemma joinValues_single:
  "joinValues sp var names [e] = (if names = [] then [] else names ! 0) @ e"
  by (simp add: joinValues_def)

lemma scalar_named:
  assumes "named (MODIFIERS_SPECS m)"
    and "params (name var) = Some (JPrim x)"
    and "type matcher = type_value" and "isValid matcher x"
    and "truncatedValues var [serialize matcher x] = [t]"
  shows "serializeVariable (MODIFIERS_SPECS m) params var matcher =
     Inr (Some (escape (name var) @ (if m = Semicolon \<and> t = [] then [] else ''='') @ escape t))"
proof -
  have names: "variableNames (MODIFIERS_SPECS m) var (JPrim x) [t] =
      [escape (name var) @ (if m = Semicolon \<and> t = [] then [] else ''='')]"
    using assms(1)
    by (simp add: variableNames_def variableName_def valueIsARecord_def named_escapes
        trimEmptyString_only_semicolon isEmpty_def)
  have esc: "escapedValues (MODIFIERS_SPECS m) var (JPrim x) [t] = [escape t]"
    using assms(1) by (simp add: escapedValues_def valueIsARecord_def named_escapes)
  show ?thesis
    using assms(2-5)
    by (simp add: serializeVariable_def valueIsAnObject_def valueIsAnArray_def
        valueIsARecord_def values_of_def names esc joinValues_single)
qed

text \<open>
  C6: only \<open>;\<close> trims the empty string, and \<open>; ? &\<close> are the named operators; under
  a named operator every name that is put before a value (the variable's, or the key of an
  exploded record) is followed by \<open>=\<close>, except under \<open>;\<close> when the variable is empty, that
  is when all its values, serialized and truncated, are the empty string. So a scalar gives
  \<open>name\<close> under \<open>;\<close> when it is empty and \<open>name=value\<close> in every other named case:
  "{;empty}" expands to ";empty", "{?empty}" to "?empty=" and "{&empty}" to "&empty=".
\<close>

theorem named_equals_sign:
  "(trimEmptyString (MODIFIERS_SPECS m) \<longleftrightarrow> m = Semicolon) \<and>
   (named (MODIFIERS_SPECS m) \<longleftrightarrow> m = Semicolon \<or> m = Question \<or> m = Ampersand) \<and>
   (named (MODIFIERS_SPECS m) \<and> index < length ts \<and> (index = 0 \<or> explode var) \<longrightarrow>
      variableNames (MODIFIERS_SPECS m) var v ts ! index =
        escape (variableName var v index) @
        (if m = Semicolon \<and> isEmpty ts then [] else ''='')) \<and>
   (named (MODIFIERS_SPECS m) \<and> params (name var) = Some (JPrim x) \<and>
    type matcher = type_value \<and> isValid matcher x \<and>
    truncatedValues var [serialize matcher x] = [t] \<longrightarrow>
      serializeVariable (MODIFIERS_SPECS m) params var matcher =
        Inr (Some (escape (name var) @ (if m = Semicolon \<and> t = [] then [] else ''='') @
                   escape t))) \<and>
   expand ''{;empty}'' [''empty'' \<mapsto> asString] [''empty'' \<mapsto> JPrim (JString [])] =
     Inr '';empty'' \<and>
   expand ''{?empty}'' [''empty'' \<mapsto> asString] [''empty'' \<mapsto> JPrim (JString [])] =
     Inr ''?empty='' \<and>
   expand ''{&empty}'' [''empty'' \<mapsto> asString] [''empty'' \<mapsto> JPrim (JString [])] =
     Inr ''&empty=''"
proof (intro conjI impI)
  show "trimEmptyString (MODIFIERS_SPECS m) \<longleftrightarrow> m = Semicolon"
    by (rule trimEmptyString_only_semicolon)
  show "named (MODIFIERS_SPECS m) \<longleftrightarrow> m = Semicolon \<or> m = Question \<or> m = Ampersand"
    by (rule named_modifiers)
next
  assume "named (MODIFIERS_SPECS m) \<and> index < length ts \<and> (index = 0 \<or> explode var)"
  then show "variableNames (MODIFIERS_SPECS m) var v ts ! index =
        escape (variableName var v index) @
        (if m = Semicolon \<and> isEmpty ts then [] else ''='')"
    by (simp add: variableNames_nth named_escapes trimEmptyString_only_semicolon)
next
  assume "named (MODIFIERS_SPECS m) \<and> params (name var) = Some (JPrim x) \<and>
    type matcher = type_value \<and> isValid matcher x \<and>
    truncatedValues var [serialize matcher x] = [t]"
  then show "serializeVariable (MODIFIERS_SPECS m) params var matcher =
        Inr (Some (escape (name var) @ (if m = Semicolon \<and> t = [] then [] else ''='') @
                   escape t))"
    using scalar_named [of m params var x matcher t] by blast
next
  show "expand ''{;empty}'' [''empty'' \<mapsto> asString] [''empty'' \<mapsto> JPrim (JString [])] =
     Inr '';empty''"
    by (simp add: parser_eval serialize_eval escape_eval)
  show "expand ''{?empty}'' [''empty'' \<mapsto> asString] [''empty'' \<mapsto> JPrim (JString [])] =
     Inr ''?empty=''"
    by (simp add: parser_eval serialize_eval escape_eval)
  show "expand ''{&empty}'' [''empty'' \<mapsto> asString] [''empty'' \<mapsto> JPrim (JString [])] =
     Inr ''&empty=''"
    by (simp add: parser_eval serialize_eval escape_eval)
qed

theorem named_equals_sign_witness:
  "named (MODIFIERS_SPECS Semicolon) \<and> named (MODIFIERS_SPECS Question) \<and>
   serializeVariable (MODIFIERS_SPECS Semicolon) [''empty'' \<mapsto> JPrim (JString [])]
     \<lparr> name = ''empty'', explode = False, truncateLength = None \<rparr>
     (asString :: int primitive ParameterMatcher) = Inr (Some ''empty'') \<and>
   serializeVariable (MODIFIERS_SPECS Question) [''empty'' \<mapsto> JPrim (JString [])]
     \<lparr> name = ''empty'', explode = False, truncateLength = None \<rparr>
     (asString :: int primitive ParameterMatcher) = Inr (Some ''empty='') \<and>
   serializeVariable (MODIFIERS_SPECS Semicolon) [''who'' \<mapsto> JPrim (JString ''fred'')]
     \<lparr> name = ''who'', explode = False, truncateLength = None \<rparr>
     (asString :: int primitive ParameterMatcher) = Inr (Some ''who=fred'') \<and>
   variableNames (MODIFIERS_SPECS Semicolon)
     \<lparr> name = ''list'', explode = True, truncateLength = None \<rparr>
     (JArray [JString ''red'', JString ''green'' :: int primitive]) [''red'', ''green''] ! 1 =
     ''list=''"
proof -
  let ?e = "\<lparr> name = ''empty'', explode = False, truncateLength = None \<rparr>"
  let ?w = "\<lparr> name = ''who'', explode = False, truncateLength = None \<rparr>"
  let ?l = "\<lparr> name = ''list'', explode = True, truncateLength = None \<rparr>"
  let ?s = "asString :: int primitive ParameterMatcher"
  let ?pe = "[''empty'' \<mapsto> JPrim (JString []) :: int primitive jsvalue]"
  let ?pw = "[''who'' \<mapsto> JPrim (JString ''fred'') :: int primitive jsvalue]"
  have n: "named (MODIFIERS_SPECS Semicolon)" "named (MODIFIERS_SPECS Question)" by simp_all
  have esc: "escape ''empty'' = ''empty''" "escape [] = []" "escape ''who'' = ''who''"
    "escape ''fred'' = ''fred''" "escape ''list'' = ''list''"
    by (simp_all add: escape_eval)
  have hyp1: "named (MODIFIERS_SPECS Semicolon) \<and> ?pe (name ?e) = Some (JPrim (JString [])) \<and>
      type ?s = type_value \<and> isValid ?s (JString []) \<and>
      truncatedValues ?e [serialize ?s (JString [])] = [[]]"
    by (simp add: asString_def truncatedValues_def)
  have hyp2: "named (MODIFIERS_SPECS Question) \<and> ?pe (name ?e) = Some (JPrim (JString [])) \<and>
      type ?s = type_value \<and> isValid ?s (JString []) \<and>
      truncatedValues ?e [serialize ?s (JString [])] = [[]]"
    by (simp add: asString_def truncatedValues_def)
  have hyp3: "named (MODIFIERS_SPECS Semicolon) \<and> ?pw (name ?w) = Some (JPrim (JString ''fred'')) \<and>
      type ?s = type_value \<and> isValid ?s (JString ''fred'') \<and>
      truncatedValues ?w [serialize ?s (JString ''fred'')] = [''fred'']"
    by (simp add: asString_def truncatedValues_def)
  have hyp4: "named (MODIFIERS_SPECS Semicolon) \<and> 1 < length [''red'', ''green''] \<and>
      (1 = (0::nat) \<or> explode ?l)"
    by simp
  from named_equals_sign [where m = Semicolon and params = ?pe and var = ?e and matcher = ?s
      and x = "JString []" and t = "[]",
      THEN conjunct2, THEN conjunct2, THEN conjunct2, THEN conjunct1, rule_format, OF hyp1]
  have r1: "serializeVariable (MODIFIERS_SPECS Semicolon) ?pe ?e ?s = Inr (Some ''empty'')"
    by (simp add: esc)
  from named_equals_sign [where m = Question and params = ?pe and var = ?e and matcher = ?s
      and x = "JString []" and t = "[]",
      THEN conjunct2, THEN conjunct2, THEN conjunct2, THEN conjunct1, rule_format, OF hyp2]
  have r2: "serializeVariable (MODIFIERS_SPECS Question) ?pe ?e ?s = Inr (Some ''empty='')"
    by (simp add: esc)
  from named_equals_sign [where m = Semicolon and params = ?pw and var = ?w and matcher = ?s
      and x = "JString ''fred''" and t = "''fred''",
      THEN conjunct2, THEN conjunct2, THEN conjunct2, THEN conjunct1, rule_format, OF hyp3]
  have r3: "serializeVariable (MODIFIERS_SPECS Semicolon) ?pw ?w ?s = Inr (Some ''who=fred'')"
    by (simp add: esc)
  from named_equals_sign [where m = Semicolon and index = 1 and ts = "[''red'', ''green'']"
      and var = ?l and v = "JArray [JString ''red'', JString ''green'' :: int primitive]",
      THEN conjunct2, THEN conjunct2, THEN conjunct1, rule_format, OF hyp4]
  have r4: "variableNames (MODIFIERS_SPECS Semicolon) ?l
     (JArray [JString ''red'', JString ''green'' :: int primitive]) [''red'', ''green''] ! 1 =
     ''list=''"
    by (simp add: esc variableName_def valueIsARecord_def isEmpty_def)
  from n r1 r2 r3 r4 show ?thesis by simp
qed

subsection \<open>Values that are not exploded\<close>

lemma join_Cons: "join sep (x # xs) = x @ concat (map (\<lambda>y. sep @ y) xs)"
  by (induction xs arbitrary: x) simp_all

lemma foldl_enumerate_commas:
  assumes "\<not> explode var" and "0 < n"
    and "\<forall>i. 0 < i \<and> i < length names \<longrightarrow> names ! i = []"
  shows "foldl (\<lambda>str (index, escapedValue).
              str @ (if index > 0 then (if explode var then separator sp else '','') else []) @
              (if index < length names then names ! index else []) @ escapedValue)
           acc (enumerate n es) = acc @ concat (map (\<lambda>y. '','' @ y) es)"
  using assms
  by (induction es arbitrary: acc n) auto

lemma joinValues_not_exploded:
  assumes "\<not> explode var" and "es \<noteq> []"
    and "\<forall>i. 0 < i \<and> i < length names \<longrightarrow> names ! i = []"
  shows "joinValues sp var names es = (if names = [] then [] else names ! 0) @ join '','' es"
proof -
  from assms(2) obtain e es' where es: "es = e # es'" by (cases es) auto
  show ?thesis
    using foldl_enumerate_commas [OF assms(1) _ assms(3), of "Suc 0" sp _ es']
    by (auto simp: joinValues_def es join_Cons)
qed

lemma length_serializedValues:
  "serializedValues matcher vname k xs = Inr ss \<Longrightarrow> length ss = length xs"
  by (induction xs arbitrary: k ss) (auto split: if_splits sum.splits)

lemma interleave_not_empty: "ks \<noteq> [] \<Longrightarrow> ts \<noteq> [] \<Longrightarrow> interleave ks ts \<noteq> []"
  by (cases ks; cases ts) simp_all

lemma variableNames_not_exploded:
  assumes "\<not> explode var" and "named sp" and "ts \<noteq> []"
  shows "variableNames sp var v ts \<noteq> []"
    and "variableNames sp var v ts ! 0 =
           escape_with sp (name var) @ (if trimEmptyString sp \<and> isEmpty ts then [] else ''='')"
    and "\<forall>i. 0 < i \<and> i < length (variableNames sp var v ts) \<longrightarrow>
           variableNames sp var v ts ! i = []"
  using assms
  by (auto simp: variableNames_nth length_variableNames variableName_def
      simp flip: length_0_conv [of "variableNames sp var v ts"])

lemma list_not_exploded:
  assumes "named sp" and "\<not> explode var"
    and "params (name var) = Some (JArray xs)" and "xs \<noteq> []"
    and "type matcher = type_list"
    and "serializedValues matcher (name var) 0 xs = Inr ss"
  shows "serializeVariable sp params var matcher =
     Inr (Some (escape_with sp (name var) @
                (if trimEmptyString sp \<and> isEmpty (truncatedValues var ss) then [] else ''='') @
                join '','' (map (escape_with sp) (truncatedValues var ss))))"
proof -
  let ?v = "JArray xs"
  let ?ts = "truncatedValues var ss"
  from length_serializedValues [OF assms(6)] assms(4) have ts: "?ts \<noteq> []"
    by (auto simp: truncatedValues_def)
  have es: "escapedValues sp var ?v ?ts = map (escape_with sp) ?ts"
    by (simp add: escapedValues_def valueIsARecord_def)
  with ts have "escapedValues sp var ?v ?ts \<noteq> []" by simp
  then have "joinValues sp var (variableNames sp var ?v ?ts) (escapedValues sp var ?v ?ts) =
      (if variableNames sp var ?v ?ts = [] then [] else variableNames sp var ?v ?ts ! 0) @
      join '','' (escapedValues sp var ?v ?ts)"
    by (intro joinValues_not_exploded assms(2) variableNames_not_exploded(3) [OF assms(2,1) ts])
  also have "\<dots> =
      (escape_with sp (name var) @ (if trimEmptyString sp \<and> isEmpty ?ts then [] else ''='')) @
      join '','' (map (escape_with sp) ?ts)"
    by (simp only: variableNames_not_exploded(1,2) [OF assms(2,1) ts] es if_False)
  finally show ?thesis
    using assms(3,5,6)
    by (simp add: serializeVariable_def valueIsARecord_def valueIsAnArray_def values_of_def)
qed

lemma record_not_exploded:
  assumes "named sp" and "\<not> explode var"
    and "params (name var) = Some (JObject kvs)"
    and "type matcher = type_record"
    and "serializedValues matcher (name var) 0 (map snd kvs) = Inr ss"
    and "\<not> isEmpty (truncatedValues var ss)"
  shows "serializeVariable sp params var matcher =
     Inr (Some (escape_with sp (name var) @ ''='' @
                join '','' (map (escape_with sp)
                              (interleave (map fst kvs) (truncatedValues var ss)))))"
proof -
  let ?v = "JObject kvs"
  let ?ts = "truncatedValues var ss"
  from assms(6) have ts: "?ts \<noteq> []" by (auto simp: isEmpty_def)
  with length_serializedValues [OF assms(5)] have "map fst kvs \<noteq> []"
    by (auto simp: truncatedValues_def)
  from interleave_not_empty [OF this ts]
  have es: "escapedValues sp var ?v ?ts = map (escape_with sp) (interleave (map fst kvs) ?ts)"
    and ne: "escapedValues sp var ?v ?ts \<noteq> []"
    using assms(2) by (simp_all add: escapedValues_def valueIsARecord_def Object_keys_def)
  have "joinValues sp var (variableNames sp var ?v ?ts) (escapedValues sp var ?v ?ts) =
      (if variableNames sp var ?v ?ts = [] then [] else variableNames sp var ?v ?ts ! 0) @
      join '','' (escapedValues sp var ?v ?ts)"
    by (intro joinValues_not_exploded assms(2) ne
        variableNames_not_exploded(3) [OF assms(2,1) ts])
  also have "\<dots> =
      (escape_with sp (name var) @ (if trimEmptyString sp \<and> isEmpty ?ts then [] else ''='')) @
      join '','' (map (escape_with sp) (interleave (map fst kvs) ?ts))"
    by (simp only: variableNames_not_exploded(1,2) [OF assms(2,1) ts] es if_False)
  finally show ?thesis
    using assms(3,4,5,6)
    by (simp add: serializeVariable_def valueIsARecord_def valueIsAnArray_def values_of_def)
qed

text \<open>
  C9: under a named operator, a list or a record that is not exploded is written as the
  name once, \<open>=\<close>, and then all its items joined with commas (for a record its keys and
  values in turn); the name is never repeated. The \<open>=\<close> is left out only in the case of C6
  (under \<open>;\<close>, a list of empty strings), and a record whose values are all empty is not
  written at all. So the list red, green, blue under \<open>;\<close> gives ";list=red,green,blue".
\<close>

theorem not_exploded_name_once:
  "(named sp \<and> \<not> explode var \<and> params (name var) = Some (JArray xs) \<and> xs \<noteq> [] \<and>
    type matcher = type_list \<and> serializedValues matcher (name var) 0 xs = Inr ss \<longrightarrow>
      serializeVariable sp params var matcher =
        Inr (Some (escape_with sp (name var) @
                   (if trimEmptyString sp \<and> isEmpty (truncatedValues var ss) then [] else ''='') @
                   join '','' (map (escape_with sp) (truncatedValues var ss))))) \<and>
   (named sp \<and> \<not> explode var \<and> params (name var) = Some (JObject kvs) \<and>
    type matcher = type_record \<and>
    serializedValues matcher (name var) 0 (map snd kvs) = Inr ss \<and>
    \<not> isEmpty (truncatedValues var ss) \<longrightarrow>
      serializeVariable sp params var matcher =
        Inr (Some (escape_with sp (name var) @ ''='' @
                   join '','' (map (escape_with sp)
                      (interleave (map fst kvs) (truncatedValues var ss)))))) \<and>
   expand ''{;list}'' [''list'' \<mapsto> asStrings]
     [''list'' \<mapsto> JArray [JString ''red'', JString ''green'', JString ''blue'']] =
     Inr '';list=red,green,blue''"
proof (intro conjI impI)
  assume "named sp \<and> \<not> explode var \<and> params (name var) = Some (JArray xs) \<and> xs \<noteq> [] \<and>
    type matcher = type_list \<and> serializedValues matcher (name var) 0 xs = Inr ss"
  then show "serializeVariable sp params var matcher =
        Inr (Some (escape_with sp (name var) @
                   (if trimEmptyString sp \<and> isEmpty (truncatedValues var ss) then [] else ''='') @
                   join '','' (map (escape_with sp) (truncatedValues var ss))))"
    using list_not_exploded [of sp var params xs matcher ss] by blast
next
  assume "named sp \<and> \<not> explode var \<and> params (name var) = Some (JObject kvs) \<and>
    type matcher = type_record \<and>
    serializedValues matcher (name var) 0 (map snd kvs) = Inr ss \<and>
    \<not> isEmpty (truncatedValues var ss)"
  then show "serializeVariable sp params var matcher =
        Inr (Some (escape_with sp (name var) @ ''='' @
                   join '','' (map (escape_with sp)
                      (interleave (map fst kvs) (truncatedValues var ss)))))"
    using record_not_exploded [of sp var params kvs matcher ss] by blast
next
  show "expand ''{;list}'' [''list'' \<mapsto> asStrings]
     [''list'' \<mapsto> JArray [JString ''red'', JString ''green'', JString ''blue'']] =
     Inr '';list=red,green,blue''"
    by (simp add: parser_eval serialize_eval escape_eval)
qed

theorem not_exploded_name_once_witness:
  "named (MODIFIERS_SPECS Semicolon) \<and>
   serializeVariable (MODIFIERS_SPECS Semicolon)
     [''list'' \<mapsto> JArray [JString ''red'', JString ''green'', JString ''blue'']]
     \<lparr> name = ''list'', explode = False, truncateLength = None \<rparr>
     (asStrings :: int primitive ParameterMatcher) = Inr (Some ''list=red,green,blue'') \<and>
   serializeVariable (MODIFIERS_SPECS Question)
     [''keys'' \<mapsto> JObject [(''semi'', JString '';''), (''dot'', JString ''.'')]]
     \<lparr> name = ''keys'', explode = False, truncateLength = None \<rparr>
     (asKeyedStrings :: int primitive ParameterMatcher) = Inr (Some ''keys=semi,%3B,dot,.'')"
proof -
  let ?l = "\<lparr> name = ''list'', explode = False, truncateLength = None \<rparr>"
  let ?k = "\<lparr> name = ''keys'', explode = False, truncateLength = None \<rparr>"
  let ?xs = "[JString ''red'', JString ''green'', JString ''blue''] :: int primitive list"
  let ?kvs = "[(''semi'', JString '';''), (''dot'', JString ''.'')] :: (string \<times> int primitive) list"
  let ?pl = "[''list'' \<mapsto> JArray ?xs]"
  let ?pk = "[''keys'' \<mapsto> JObject ?kvs]"
  let ?ms = "asStrings :: int primitive ParameterMatcher"
  let ?mk = "asKeyedStrings :: int primitive ParameterMatcher"
  have hyp1: "named (MODIFIERS_SPECS Semicolon) \<and> \<not> explode ?l \<and>
      ?pl (name ?l) = Some (JArray ?xs) \<and> ?xs \<noteq> [] \<and> type ?ms = type_list \<and>
      serializedValues ?ms (name ?l) 0 ?xs = Inr [''red'', ''green'', ''blue'']"
    by (simp add: asStrings_def asString_def)
  have hyp2: "named (MODIFIERS_SPECS Question) \<and> \<not> explode ?k \<and>
      ?pk (name ?k) = Some (JObject ?kvs) \<and> type ?mk = type_record \<and>
      serializedValues ?mk (name ?k) 0 (map snd ?kvs) = Inr ['';'', ''.''] \<and>
      \<not> isEmpty (truncatedValues ?k ['';'', ''.''])"
    by (simp add: asKeyedStrings_def asString_def isEmpty_def truncatedValues_def)
  from not_exploded_name_once [where sp = "MODIFIERS_SPECS Semicolon" and var = ?l
      and params = ?pl and xs = ?xs and matcher = ?ms and ss = "[''red'', ''green'', ''blue'']",
      THEN conjunct1, rule_format, OF hyp1]
  have r1: "serializeVariable (MODIFIERS_SPECS Semicolon) ?pl ?l ?ms =
      Inr (Some ''list=red,green,blue'')"
    by (simp add: escape_with_def escape_eval truncatedValues_def isEmpty_def)
  from not_exploded_name_once [where sp = "MODIFIERS_SPECS Question" and var = ?k
      and params = ?pk and kvs = ?kvs and matcher = ?mk and ss = "['';'', ''.'']",
      THEN conjunct2, THEN conjunct1, rule_format, OF hyp2]
  have r2: "serializeVariable (MODIFIERS_SPECS Question) ?pk ?k ?mk =
      Inr (Some ''keys=semi,%3B,dot,.'')"
    by (simp add: escape_with_def escape_eval truncatedValues_def)
  from r1 r2 show ?thesis by simp
qed

subsection \<open>Joining the variables of a substitution\<close>










lemma plain_object_bound: "own key = Some v \<Longrightarrow> plain_object own key = Some v"
  by (simp add: plain_object_def property_read_def)








end
